theory Spec2Isabelle
  imports Complex_Main
begin

section \<open>Numbers, rectangles and the objects of the plugin\<close>

text \<open>
  The plugin \<^verbatim>\<open>nearestNeighbor.js\<close> computes with JavaScript numbers. Coordinates are
  modelled as real numbers (rounding of the floating-point operations is not modelled).
  The values that the code stores in a \<^verbatim>\<open>distance\<close> property or compares with \<^verbatim>\<open><\<close> are
  \<^verbatim>\<open>undefined\<close> (a property that was never written), \<^verbatim>\<open>null\<close> (the default of
  \<^verbatim>\<open>distanceToRectangle\<close>), a finite number, or \<^verbatim>\<open>Number.POSITIVE_INFINITY\<close>.
\<close>

datatype jsnum = Undefined | Null | Num real | POSITIVE_INFINITY

text \<open>
  JavaScript's \<^verbatim>\<open>a < b\<close> first converts both operands to numbers: \<^verbatim>\<open>null\<close> becomes 0 and
  \<^verbatim>\<open>undefined\<close> becomes NaN, and a comparison with NaN is false.
\<close>

fun js_less :: "jsnum \<Rightarrow> jsnum \<Rightarrow> bool" where
  "js_less Undefined b = False"
| "js_less a Undefined = False"
| "js_less POSITIVE_INFINITY b = False"
| "js_less Null Null = False"
| "js_less Null (Num b) = (0 < b)"
| "js_less Null POSITIVE_INFINITY = True"
| "js_less (Num a) Null = (a < 0)"
| "js_less (Num a) (Num b) = (a < b)"
| "js_less (Num a) POSITIVE_INFINITY = True"

text \<open>
  \<^verbatim>\<open>function Rectangle(top, left, bottom, right)\<close>. The y axis points down, so \<open>top\<close> is
  the smaller y. The field names carry the suffix \<open>_edge\<close> because \<open>top\<close> is a constant
  of HOL.
\<close>

record Rectangle =
  top_edge :: real
  left_edge :: real
  bottom_edge :: real
  right_edge :: real

definition wellformed :: "Rectangle \<Rightarrow> bool" where
  "wellformed r \<longleftrightarrow> top_edge r \<le> bottom_edge r \<and> left_edge r \<le> right_edge r"

text \<open>\<^verbatim>\<open>nn.Quadrant\<close>: the four quadrant names.\<close>

datatype Quadrant = NW | NE | SW | SE

section \<open>Geometry\<close>

text \<open>\<^verbatim>\<open>pythagoreanDistance(x0, y0, x1, y1)\<close>.\<close>

definition pythagoreanDistance :: "real \<Rightarrow> real \<Rightarrow> real \<Rightarrow> real \<Rightarrow> real" where
  "pythagoreanDistance x0 y0 x1 y1 =
     (let a = y1 - y0; b = x1 - x0 in sqrt (a * a + b * b))"

text \<open>
  \<^verbatim>\<open>distanceToRectangle(rect, x, y)\<close>: \<^verbatim>\<open>d\<close> starts as \<^verbatim>\<open>null\<close> and one branch of the
  \<^verbatim>\<open>if\<close>/\<^verbatim>\<open>else if\<close> chain of six may assign it.
\<close>

definition distanceToRectangle :: "Rectangle \<Rightarrow> real \<Rightarrow> real \<Rightarrow> jsnum" where
  "distanceToRectangle rect x y =
     (if x \<ge> left_edge rect \<and> x \<le> right_edge rect then
        Num (min \<bar>y - bottom_edge rect\<bar> \<bar>top_edge rect - y\<bar>)
      else if y \<ge> top_edge rect \<and> y \<le> bottom_edge rect then
        Num (min \<bar>x - right_edge rect\<bar> \<bar>left_edge rect - x\<bar>)
      else if y \<ge> bottom_edge rect \<and> x \<ge> right_edge rect then
        Num (pythagoreanDistance x y (right_edge rect) (bottom_edge rect))
      else if y \<ge> bottom_edge rect \<and> x \<le> left_edge rect then
        Num (pythagoreanDistance x y (left_edge rect) (bottom_edge rect))
      else if y \<le> top_edge rect \<and> x \<ge> right_edge rect then
        Num (pythagoreanDistance x y (right_edge rect) (top_edge rect))
      else if y \<le> top_edge rect \<and> x \<le> left_edge rect then
        Num (pythagoreanDistance x y (left_edge rect) (top_edge rect))
      else Null)"

text \<open>\<^verbatim>\<open>getQuadrant(rectangle, quadrant)\<close>: the \<^verbatim>\<open>switch\<close> over the four names.\<close>

fun getQuadrant :: "Rectangle \<Rightarrow> Quadrant \<Rightarrow> Rectangle" where
  "getQuadrant rectangle NW =
     \<lparr>top_edge = top_edge rectangle,
      left_edge = left_edge rectangle,
      bottom_edge = top_edge rectangle + (bottom_edge rectangle - top_edge rectangle) / 2,
      right_edge = left_edge rectangle + (right_edge rectangle - left_edge rectangle) / 2\<rparr>"
| "getQuadrant rectangle NE =
     \<lparr>top_edge = top_edge rectangle,
      left_edge = left_edge rectangle + (right_edge rectangle - left_edge rectangle) / 2,
      bottom_edge = top_edge rectangle + (bottom_edge rectangle - top_edge rectangle) / 2,
      right_edge = right_edge rectangle\<rparr>"
| "getQuadrant rectangle SW =
     \<lparr>top_edge = top_edge rectangle + (bottom_edge rectangle - top_edge rectangle) / 2,
      left_edge = left_edge rectangle,
      bottom_edge = bottom_edge rectangle,
      right_edge = left_edge rectangle + (right_edge rectangle - left_edge rectangle) / 2\<rparr>"
| "getQuadrant rectangle SE =
     \<lparr>top_edge = top_edge rectangle + (bottom_edge rectangle - top_edge rectangle) / 2,
      left_edge = left_edge rectangle + (right_edge rectangle - left_edge rectangle) / 2,
      bottom_edge = bottom_edge rectangle,
      right_edge = right_edge rectangle\<rparr>"

text \<open>
  \<^verbatim>\<open>quadWithPoint(rectangle, x, y)\<close>: \<^verbatim>\<open>quad\<close> starts as \<^verbatim>\<open>null\<close> (\<open>None\<close>).
\<close>

definition quadWithPoint :: "Rectangle \<Rightarrow> real \<Rightarrow> real \<Rightarrow> Quadrant option" where
  "quadWithPoint rectangle x y =
     (let nw = getQuadrant rectangle NW in
      if x \<le> right_edge nw \<and> y \<le> bottom_edge nw then Some NW
      else if x > right_edge nw \<and> y \<le> bottom_edge nw then Some NE
      else if x \<le> right_edge nw \<and> y > bottom_edge nw then Some SW
      else if x > right_edge nw \<and> y > bottom_edge nw then Some SE
      else None)"

section \<open>Elements, nodes and the running best\<close>

text \<open>
  A member of the jQuery set: the DOM element it wraps (\<open>dom\<close>, opaque) and the four
  layout values that \<^verbatim>\<open>boundingBox\<close> reads from it, \<^verbatim>\<open>position().top\<close>,
  \<^verbatim>\<open>position().left\<close>, \<^verbatim>\<open>innerWidth()\<close> and \<^verbatim>\<open>innerHeight()\<close>, as a snapshot.
\<close>

record 'a JQuery =
  dom :: 'a
  position_top :: real
  position_left :: real
  innerWidth :: real
  innerHeight :: real

text \<open>\<^verbatim>\<open>boundingBox($elem)\<close>.\<close>

definition boundingBox :: "'a JQuery \<Rightarrow> Rectangle" where
  "boundingBox e =
     \<lparr>top_edge = position_top e,
      left_edge = position_left e,
      bottom_edge = position_top e + innerHeight e,
      right_edge = position_left e + innerWidth e\<rparr>"

text \<open>
  \<^verbatim>\<open>function Element(element)\<close> sets \<^verbatim>\<open>element\<close> and \<^verbatim>\<open>rectangle\<close>. The property
  \<^verbatim>\<open>distance\<close> does not exist until \<^verbatim>\<open>getMinDistance\<close> writes it, so a new element reads
  \<open>Undefined\<close> there.
\<close>

record 'a Element =
  element :: "'a JQuery"
  rectangle :: Rectangle
  distance :: jsnum

definition Element :: "'a JQuery \<Rightarrow> 'a Element" where
  "Element e = \<lparr>element = e, rectangle = boundingBox e, distance = Undefined\<rparr>"

text \<open>
  \<^verbatim>\<open>function Node(rectangle)\<close>: the region, the \<^verbatim>\<open>distance\<close> property (set to infinity by
  the constructor and never written again), the bucket \<^verbatim>\<open>elements\<close> and the four child
  slots, \<open>None\<close> for \<^verbatim>\<open>null\<close>.
\<close>

datatype 'a Node =
  Node (node_rectangle: Rectangle) (node_distance: jsnum) (elements: "'a Element list")
       (nw: "'a Node option") (ne: "'a Node option") (sw: "'a Node option") (se: "'a Node option")

definition newNode :: "Rectangle \<Rightarrow> 'a Node" where
  "newNode r = Node r POSITIVE_INFINITY [] None None None None"

text \<open>
  The variable \<^verbatim>\<open>best\<close> of \<^verbatim>\<open>nearestNeighbor\<close> holds either the object made by
  \<^verbatim>\<open>new Node()\<close> (no rectangle, no \<^verbatim>\<open>element\<close> property, distance infinity) or an element
  taken from a bucket. \<open>best_distance\<close> is the read \<^verbatim>\<open>best.distance\<close>.
\<close>

datatype 'a Best = BlankNode | BestElement "'a Element"

fun best_distance :: "'a Best \<Rightarrow> jsnum" where
  "best_distance BlankNode = POSITIVE_INFINITY"
| "best_distance (BestElement e) = distance e"

datatype error = TypeError

section \<open>Building the tree\<close>

text \<open>
  \<^verbatim>\<open>addElement(node, element)\<close> changes the node in place; the model returns the changed
  node. The recursion follows the element into ever smaller quadrants and nothing in the
  code bounds it, so the function is partial: \<open>None\<close> means that the call does not
  return.
\<close>

partial_function (option) addElement :: "'a Node \<Rightarrow> 'a Element \<Rightarrow> 'a Node option" where
  "addElement node el =
     (let boundry = node_rectangle node;
          xDiv = left_edge boundry + (right_edge boundry - left_edge boundry) / 2;
          yDiv = top_edge boundry + (bottom_edge boundry - top_edge boundry) / 2;
          rect = rectangle el
      in
      if bottom_edge rect < yDiv \<and> right_edge rect < xDiv then
        Option.bind
          (addElement (case nw node of None \<Rightarrow> newNode (getQuadrant boundry NW) | Some c \<Rightarrow> c) el)
          (\<lambda>c. Some (Node boundry (node_distance node) (elements node)
                         (Some c) (ne node) (sw node) (se node)))
      else if bottom_edge rect < yDiv \<and> left_edge rect > xDiv then
        Option.bind
          (addElement (case ne node of None \<Rightarrow> newNode (getQuadrant boundry NE) | Some c \<Rightarrow> c) el)
          (\<lambda>c. Some (Node boundry (node_distance node) (elements node)
                         (nw node) (Some c) (sw node) (se node)))
      else if top_edge rect > yDiv \<and> right_edge rect < xDiv then
        Option.bind
          (addElement (case sw node of None \<Rightarrow> newNode (getQuadrant boundry SW) | Some c \<Rightarrow> c) el)
          (\<lambda>c. Some (Node boundry (node_distance node) (elements node)
                         (nw node) (ne node) (Some c) (se node)))
      else if top_edge rect > yDiv \<and> left_edge rect > xDiv then
        Option.bind
          (addElement (case se node of None \<Rightarrow> newNode (getQuadrant boundry SE) | Some c \<Rightarrow> c) el)
          (\<lambda>c. Some (Node boundry (node_distance node) (elements node)
                         (nw node) (ne node) (sw node) (Some c)))
      else
        Some (Node boundry (node_distance node) (elements node @ [el])
                   (nw node) (ne node) (sw node) (se node)))"

text \<open>The \<^verbatim>\<open>for\<close> loop of \<^verbatim>\<open>quadtree\<close>: wrap each member and add it to the root.\<close>

fun quadtree_loop :: "'a Node \<Rightarrow> 'a JQuery list \<Rightarrow> 'a Node option" where
  "quadtree_loop rootNode [] = Some rootNode"
| "quadtree_loop rootNode (e # es) =
     Option.bind (addElement rootNode (Element e)) (\<lambda>rootNode'. quadtree_loop rootNode' es)"

text \<open>
  \<^verbatim>\<open>quadtree(elements, rectangle)\<close>. The outer \<open>option\<close> is \<open>None\<close> when the build does
  not return; the inner one is the returned value, \<open>None\<close> for \<^verbatim>\<open>null\<close>.
\<close>

definition quadtree :: "'a JQuery list \<Rightarrow> Rectangle \<Rightarrow> 'a Node option option" where
  "quadtree els bounds =
     (if length els = 0 then Some None
      else map_option Some (quadtree_loop (newNode bounds) els))"

section \<open>Searching\<close>

text \<open>
  The loop of \<^verbatim>\<open>getMinDistance(nodes, x, y)\<close> with its two variables \<^verbatim>\<open>min\<close> and
  \<^verbatim>\<open>best\<close>. Each pass writes \<^verbatim>\<open>nodes[i].distance\<close>, so the loop returns the array with
  the written distances next to the value of \<^verbatim>\<open>best\<close> (\<open>None\<close> for \<^verbatim>\<open>null\<close>). \<^verbatim>\<open>best\<close> is
  a reference to \<^verbatim>\<open>nodes[i]\<close> taken after the write; no later pass writes that object
  again, so the model keeps the written copy.
\<close>

fun getMinDistance_loop ::
  "'a Element list \<Rightarrow> real \<Rightarrow> real \<Rightarrow> jsnum \<Rightarrow> 'a Element option
     \<Rightarrow> 'a Element list \<times> 'a Element option" where
  "getMinDistance_loop [] x y min_d best = ([], best)"
| "getMinDistance_loop (n # nodes) x y min_d best =
     (let d = distanceToRectangle (rectangle n) x y;
          n' = n\<lparr>distance := d\<rparr>;
          (nodes', r) = (if js_less d min_d
                         then getMinDistance_loop nodes x y d (Some n')
                         else getMinDistance_loop nodes x y min_d best)
      in (n' # nodes', r))"

definition getMinDistance ::
  "'a Element list \<Rightarrow> real \<Rightarrow> real \<Rightarrow> 'a Element list \<times> 'a Element option" where
  "getMinDistance nodes x y = getMinDistance_loop nodes x y POSITIVE_INFINITY None"

text \<open>
  \<^verbatim>\<open>nearestNeighbor(quadtree, x, y, best)\<close>. The result is \<open>Inl TypeError\<close> where the
  code would read \<^verbatim>\<open>.distance\<close> of \<^verbatim>\<open>null\<close>; otherwise it is the tree as the call leaves
  it (the buckets it scanned carry the written distances) and the returned value,
  \<open>None\<close> for \<^verbatim>\<open>null\<close>. In \<^verbatim>\<open>pointQuad == NW || quadDistance < best.distance\<close> the right
  operand is only evaluated when the left one is false. After the bucket scan \<^verbatim>\<open>best\<close> is
  an object (\<open>Some best1\<close>); after a recursive call it is what that call returned.
\<close>

function nearestNeighbor ::
  "'a Node option \<Rightarrow> real \<Rightarrow> real \<Rightarrow> 'a Best option
     \<Rightarrow> error + ('a Node option \<times> 'a Best option)" where
  "nearestNeighbor None x y best = Inr (None, None)"
| "nearestNeighbor (Some (Node rect nd elems nw_c ne_c sw_c se_c)) x y best =
     (let best0 = (case best of None \<Rightarrow> BlankNode | Some b \<Rightarrow> b) in
      (case (if length elems > 0 then
               (case getMinDistance elems x y of
                  (elems', None) \<Rightarrow> Inl TypeError
                | (elems', Some bestInQuad) \<Rightarrow>
                    Inr (elems', if js_less (distance bestInQuad) (best_distance best0)
                                 then BestElement bestInQuad else best0))
             else Inr (elems, best0)) of
         Inl err \<Rightarrow> Inl err
       | Inr (elems1, best1) \<Rightarrow>
      (let pointQuad = quadWithPoint rect x y in
      (case (case nw_c of None \<Rightarrow> Inr (None, Some best1)
             | Some c \<Rightarrow>
                 (let quadDistance = distanceToRectangle (node_rectangle c) x y in
                  (case (if pointQuad = Some NW then Inr True
                         else (case Some best1 of None \<Rightarrow> Inl TypeError
                               | Some b \<Rightarrow> Inr (js_less quadDistance (best_distance b)))) of
                     Inl err \<Rightarrow> Inl err
                   | Inr go \<Rightarrow> if go then nearestNeighbor nw_c x y (Some best1)
                               else Inr (nw_c, Some best1)))) of
         Inl err \<Rightarrow> Inl err
       | Inr (nw1, best2) \<Rightarrow>
      (case (case ne_c of None \<Rightarrow> Inr (None, best2)
             | Some c \<Rightarrow>
                 (let quadDistance = distanceToRectangle (node_rectangle c) x y in
                  (case (if pointQuad = Some NE then Inr True
                         else (case best2 of None \<Rightarrow> Inl TypeError
                               | Some b \<Rightarrow> Inr (js_less quadDistance (best_distance b)))) of
                     Inl err \<Rightarrow> Inl err
                   | Inr go \<Rightarrow> if go then nearestNeighbor ne_c x y best2
                               else Inr (ne_c, best2)))) of
         Inl err \<Rightarrow> Inl err
       | Inr (ne1, best3) \<Rightarrow>
      (case (case sw_c of None \<Rightarrow> Inr (None, best3)
             | Some c \<Rightarrow>
                 (let quadDistance = distanceToRectangle (node_rectangle c) x y in
                  (case (if pointQuad = Some SW then Inr True
                         else (case best3 of None \<Rightarrow> Inl TypeError
                               | Some b \<Rightarrow> Inr (js_less quadDistance (best_distance b)))) of
                     Inl err \<Rightarrow> Inl err
                   | Inr go \<Rightarrow> if go then nearestNeighbor sw_c x y best3
                               else Inr (sw_c, best3)))) of
         Inl err \<Rightarrow> Inl err
       | Inr (sw1, best4) \<Rightarrow>
      (case (case se_c of None \<Rightarrow> Inr (None, best4)
             | Some c \<Rightarrow>
                 (let quadDistance = distanceToRectangle (node_rectangle c) x y in
                  (case (if pointQuad = Some SE then Inr True
                         else (case best4 of None \<Rightarrow> Inl TypeError
                               | Some b \<Rightarrow> Inr (js_less quadDistance (best_distance b)))) of
                     Inl err \<Rightarrow> Inl err
                   | Inr go \<Rightarrow> if go then nearestNeighbor se_c x y best4
                               else Inr (se_c, best4)))) of
         Inl err \<Rightarrow> Inl err
       | Inr (se1, best5) \<Rightarrow>
           Inr (Some (Node rect nd elems1 nw1 ne1 sw1 se1), best5))))))))"
  by pat_completeness auto
termination
  by (relation "measure (\<lambda>(t, x, y, b). size_option size t)") auto

text \<open>
  \<^verbatim>\<open>fullScan(x, y)\<close>: the callback of \<^verbatim>\<open>this.each\<close> run over the members in order, with
  the two captured variables \<^verbatim>\<open>min_dist\<close> and \<^verbatim>\<open>$closestElem\<close>.
\<close>

fun fullScan_each ::
  "'a JQuery list \<Rightarrow> real \<Rightarrow> real \<Rightarrow> jsnum \<Rightarrow> 'a JQuery option \<Rightarrow> 'a JQuery option" where
  "fullScan_each [] x y min_dist closestElem = closestElem"
| "fullScan_each (e # es) x y min_dist closestElem =
     (let rect = boundingBox e;
          dist = distanceToRectangle rect x y
      in if js_less dist min_dist then fullScan_each es x y dist (Some e)
         else fullScan_each es x y min_dist closestElem)"

definition fullScan :: "'a JQuery list \<Rightarrow> real \<Rightarrow> real \<Rightarrow> 'a JQuery option" where
  "fullScan this x y = fullScan_each this x y POSITIVE_INFINITY None"

section \<open>Notions used to state and prove the properties\<close>

subsection \<open>The parts of \<open>nearestNeighbor\<close> and \<open>addElement\<close>\<close>

text \<open>
  The body of \<open>nearestNeighbor\<close> is a bucket scan followed by the same block of code
  four times, once per child slot. \<open>scanBucket\<close> and \<open>visitChild\<close> name these two
  parts (the last argument of \<open>visitChild\<close> is the value of the recursive call);
  \<open>nearestNeighbor_unfold\<close> below shows that the function is their composition.
\<close>

definition scanBucket ::
  "'a Element list \<Rightarrow> real \<Rightarrow> real \<Rightarrow> 'a Best \<Rightarrow> error + ('a Element list \<times> 'a Best)" where
  "scanBucket elems x y best0 =
     (if length elems > 0 then
        (case getMinDistance elems x y of
           (elems', None) \<Rightarrow> Inl TypeError
         | (elems', Some bestInQuad) \<Rightarrow>
             Inr (elems', if js_less (distance bestInQuad) (best_distance best0)
                          then BestElement bestInQuad else best0))
      else Inr (elems, best0))"

definition visitChild ::
  "Quadrant \<Rightarrow> Quadrant option \<Rightarrow> 'a Node option \<Rightarrow> real \<Rightarrow> real \<Rightarrow> 'a Best option
     \<Rightarrow> error + ('a Node option \<times> 'a Best option)
     \<Rightarrow> error + ('a Node option \<times> 'a Best option)" where
  "visitChild q pointQuad child_c x y best descended =
     (case child_c of None \<Rightarrow> Inr (None, best)
      | Some c \<Rightarrow>
          (let quadDistance = distanceToRectangle (node_rectangle c) x y in
           (case (if pointQuad = Some q then Inr True
                  else (case best of None \<Rightarrow> Inl TypeError
                        | Some b \<Rightarrow> Inr (js_less quadDistance (best_distance b)))) of
              Inl err \<Rightarrow> Inl err
            | Inr go \<Rightarrow> if go then descended else Inr (child_c, best))))"

text \<open>
  The two local variables \<^verbatim>\<open>xDiv\<close> and \<^verbatim>\<open>yDiv\<close> of \<^verbatim>\<open>addElement\<close>, the four tests of
  its \<^verbatim>\<open>if\<close> chain, the child slot of a quadrant, the node that the recursive call
  receives for a quadrant (the child, made first if the slot is empty) and the two ways
  the node is changed.
\<close>

definition xDiv :: "Rectangle \<Rightarrow> real" where
  "xDiv boundry = left_edge boundry + (right_edge boundry - left_edge boundry) / 2"

definition yDiv :: "Rectangle \<Rightarrow> real" where
  "yDiv boundry = top_edge boundry + (bottom_edge boundry - top_edge boundry) / 2"

fun fits :: "Quadrant \<Rightarrow> Rectangle \<Rightarrow> Rectangle \<Rightarrow> bool" where
  "fits NW boundry rect \<longleftrightarrow> bottom_edge rect < yDiv boundry \<and> right_edge rect < xDiv boundry"
| "fits NE boundry rect \<longleftrightarrow> bottom_edge rect < yDiv boundry \<and> left_edge rect > xDiv boundry"
| "fits SW boundry rect \<longleftrightarrow> top_edge rect > yDiv boundry \<and> right_edge rect < xDiv boundry"
| "fits SE boundry rect \<longleftrightarrow> top_edge rect > yDiv boundry \<and> left_edge rect > xDiv boundry"

fun child :: "Quadrant \<Rightarrow> 'a Node \<Rightarrow> 'a Node option" where
  "child NW n = nw n"
| "child NE n = ne n"
| "child SW n = sw n"
| "child SE n = se n"

definition slot :: "Quadrant \<Rightarrow> 'a Node \<Rightarrow> 'a Node" where
  "slot q n = (case child q n of None \<Rightarrow> newNode (getQuadrant (node_rectangle n) q) | Some c \<Rightarrow> c)"

fun with_child :: "Quadrant \<Rightarrow> 'a Node \<Rightarrow> 'a Node \<Rightarrow> 'a Node" where
  "with_child NW c n =
     Node (node_rectangle n) (node_distance n) (elements n) (Some c) (ne n) (sw n) (se n)"
| "with_child NE c n =
     Node (node_rectangle n) (node_distance n) (elements n) (nw n) (Some c) (sw n) (se n)"
| "with_child SW c n =
     Node (node_rectangle n) (node_distance n) (elements n) (nw n) (ne n) (Some c) (se n)"
| "with_child SE c n =
     Node (node_rectangle n) (node_distance n) (elements n) (nw n) (ne n) (sw n) (Some c)"

definition with_element :: "'a Element \<Rightarrow> 'a Node \<Rightarrow> 'a Node" where
  "with_element el n =
     Node (node_rectangle n) (node_distance n) (elements n @ [el]) (nw n) (ne n) (sw n) (se n)"

subsection \<open>Comparing the running best\<close>




subsection \<open>Trees\<close>




text \<open>Every element stored in the subtree of a node, its own bucket first.\<close>

fun subtree_elements :: "'a Node \<Rightarrow> 'a Element list" where
  "subtree_elements (Node rect nd elems nw_c ne_c sw_c se_c) =
     elems @ (case nw_c of None \<Rightarrow> [] | Some c \<Rightarrow> subtree_elements c)
           @ (case ne_c of None \<Rightarrow> [] | Some c \<Rightarrow> subtree_elements c)
           @ (case sw_c of None \<Rightarrow> [] | Some c \<Rightarrow> subtree_elements c)
           @ (case se_c of None \<Rightarrow> [] | Some c \<Rightarrow> subtree_elements c)"

subsection \<open>Containment\<close>

text \<open>\<open>inside rect region\<close>: the rectangle lies in the closed region.\<close>

definition inside :: "Rectangle \<Rightarrow> Rectangle \<Rightarrow> bool" where
  "inside rect region \<longleftrightarrow>
     left_edge region \<le> left_edge rect \<and> right_edge rect \<le> right_edge region \<and>
     top_edge region \<le> top_edge rect \<and> bottom_edge rect \<le> bottom_edge region"

text \<open>
  \<open>strictlyWithin rect q quad\<close>: the rectangle lies in \<open>quad\<close>, the quadrant \<open>q\<close> of a
  node, and stays strictly clear of the two sides of \<open>quad\<close> that are the node's dividing
  lines (for the north-west quadrant, its right and its bottom side). This is the strict
  containment of the insertion rule: an element touching a dividing line is not strictly
  within the quadrant, one touching the outer border of the node's region is.
\<close>

fun strictlyWithin :: "Rectangle \<Rightarrow> Quadrant \<Rightarrow> Rectangle \<Rightarrow> bool" where
  "strictlyWithin rect NW quad \<longleftrightarrow>
     inside rect quad \<and> right_edge rect < right_edge quad \<and> bottom_edge rect < bottom_edge quad"
| "strictlyWithin rect NE quad \<longleftrightarrow>
     inside rect quad \<and> left_edge quad < left_edge rect \<and> bottom_edge rect < bottom_edge quad"
| "strictlyWithin rect SW quad \<longleftrightarrow>
     inside rect quad \<and> right_edge rect < right_edge quad \<and> top_edge quad < top_edge rect"
| "strictlyWithin rect SE quad \<longleftrightarrow>
     inside rect quad \<and> left_edge quad < left_edge rect \<and> top_edge quad < top_edge rect"

text \<open>The rectangle touches or crosses one of the two dividing lines of the region.\<close>

definition straddles :: "Rectangle \<Rightarrow> Rectangle \<Rightarrow> bool" where
  "straddles rect boundry \<longleftrightarrow>
     (left_edge rect \<le> xDiv boundry \<and> xDiv boundry \<le> right_edge rect) \<or>
     (top_edge rect \<le> yDiv boundry \<and> yDiv boundry \<le> bottom_edge rect)"

text \<open>What the invariant asks of an element in the bucket of a node with region \<open>boundry\<close>.\<close>

definition bucket_ok :: "Rectangle \<Rightarrow> Rectangle \<Rightarrow> bool" where
  "bucket_ok boundry rect \<longleftrightarrow>
     \<not> strictlyWithin rect NW (getQuadrant boundry NW) \<and>
     \<not> strictlyWithin rect NE (getQuadrant boundry NE) \<and>
     \<not> strictlyWithin rect SW (getQuadrant boundry SW) \<and>
     \<not> strictlyWithin rect SE (getQuadrant boundry SE) \<and>
     straddles rect boundry"

text \<open>
  What it asks of the child \<open>c\<close> in slot \<open>q\<close>: its region is that quadrant, and every
  element stored anywhere below it is strictly within the child's rectangle.
\<close>

definition routed_ok :: "Quadrant \<Rightarrow> Rectangle \<Rightarrow> 'a Node \<Rightarrow> bool" where
  "routed_ok q boundry c \<longleftrightarrow>
     node_rectangle c = getQuadrant boundry q \<and>
     list_all (\<lambda>e. strictlyWithin (rectangle e) q (node_rectangle c)) (subtree_elements c)"

fun containment :: "'a Node \<Rightarrow> bool" where
  "containment (Node rect nd elems nw_c ne_c sw_c se_c) =
     (list_all (\<lambda>e. bucket_ok rect (rectangle e)) elems \<and>
      (case nw_c of None \<Rightarrow> True | Some c \<Rightarrow> routed_ok NW rect c \<and> containment c) \<and>
      (case ne_c of None \<Rightarrow> True | Some c \<Rightarrow> routed_ok NE rect c \<and> containment c) \<and>
      (case sw_c of None \<Rightarrow> True | Some c \<Rightarrow> routed_ok SW rect c \<and> containment c) \<and>
      (case se_c of None \<Rightarrow> True | Some c \<Rightarrow> routed_ok SE rect c \<and> containment c))"

subsection \<open>What one search does\<close>


section \<open>Example inputs\<close>

text \<open>
  The inputs at which the theorems below are evaluated: the rectangle from (0, 0) to
  (10, 10), a document of 100 by 100, and five members of a jQuery set, each named by
  its DOM element.
\<close>

definition square10 :: Rectangle where
  "square10 = \<lparr>top_edge = 0, left_edge = 0, bottom_edge = 10, right_edge = 10\<rparr>"

definition page :: Rectangle where
  "page = \<lparr>top_edge = 0, left_edge = 0, bottom_edge = 100, right_edge = 100\<rparr>"

text \<open>A from (0, 0) to (10, 10) and B from (90, 90) to (100, 100).\<close>

definition boxA :: "string JQuery" where
  "boxA = \<lparr>dom = ''A'', position_top = 0, position_left = 0, innerWidth = 10, innerHeight = 10\<rparr>"



text \<open>
  L from (30, 20) to (40, 30), left of the vertical dividing line of the page, and
  R from (51, 20) to (60, 30), right of it.
\<close>

definition boxL :: "string JQuery" where
  "boxL = \<lparr>dom = ''L'', position_top = 20, position_left = 30, innerWidth = 10, innerHeight = 10\<rparr>"

definition boxR :: "string JQuery" where
  "boxR = \<lparr>dom = ''R'', position_top = 20, position_left = 51, innerWidth = 9, innerHeight = 10\<rparr>"

section \<open>Lemmas\<close>

subsection \<open>Comparisons and distances\<close>






subsection \<open>The two scanning loops\<close>






subsection \<open>The search, part by part\<close>

lemma nearestNeighbor_unfold:
  "nearestNeighbor (Some (Node rect nd elems nw_c ne_c sw_c se_c)) x y best =
     (case scanBucket elems x y (case best of None \<Rightarrow> BlankNode | Some b \<Rightarrow> b) of
        Inl err \<Rightarrow> Inl err
      | Inr (elems1, best1) \<Rightarrow>
     (case visitChild NW (quadWithPoint rect x y) nw_c x y (Some best1)
             (nearestNeighbor nw_c x y (Some best1)) of
        Inl err \<Rightarrow> Inl err
      | Inr (nw1, best2) \<Rightarrow>
     (case visitChild NE (quadWithPoint rect x y) ne_c x y best2
             (nearestNeighbor ne_c x y best2) of
        Inl err \<Rightarrow> Inl err
      | Inr (ne1, best3) \<Rightarrow>
     (case visitChild SW (quadWithPoint rect x y) sw_c x y best3
             (nearestNeighbor sw_c x y best3) of
        Inl err \<Rightarrow> Inl err
      | Inr (sw1, best4) \<Rightarrow>
     (case visitChild SE (quadWithPoint rect x y) se_c x y best4
             (nearestNeighbor se_c x y best4) of
        Inl err \<Rightarrow> Inl err
      | Inr (se1, best5) \<Rightarrow>
          Inr (Some (Node rect nd elems1 nw1 ne1 sw1 se1), best5))))))"
  unfolding scanBucket_def visitChild_def nearestNeighbor.simps Let_def ..





subsection \<open>Insertion, case by case\<close>

lemma addElement_unfold:
  "addElement node el =
     (if fits NW (node_rectangle node) (rectangle el) then
        Option.bind (addElement (slot NW node) el) (\<lambda>c. Some (with_child NW c node))
      else if fits NE (node_rectangle node) (rectangle el) then
        Option.bind (addElement (slot NE node) el) (\<lambda>c. Some (with_child NE c node))
      else if fits SW (node_rectangle node) (rectangle el) then
        Option.bind (addElement (slot SW node) el) (\<lambda>c. Some (with_child SW c node))
      else if fits SE (node_rectangle node) (rectangle el) then
        Option.bind (addElement (slot SE node) el) (\<lambda>c. Some (with_child SE c node))
      else Some (with_element el node))"
  by (subst addElement.simps) (simp add: Let_def xDiv_def yDiv_def slot_def with_element_def)

lemma addElement_cases [consumes 1, case_names Routed Bucket]:
  assumes "addElement node el = Some node'"
  obtains (Routed) q c where "fits q (node_rectangle node) (rectangle el)"
      "addElement (slot q node) el = Some c" "node' = with_child q c node"
  | (Bucket) "\<forall>q. \<not> fits q (node_rectangle node) (rectangle el)" "node' = with_element el node"
proof -
  let ?b = "node_rectangle node" and ?r = "rectangle el"
  consider "fits NW ?b ?r" | "\<not> fits NW ?b ?r" "fits NE ?b ?r"
    | "\<not> fits NW ?b ?r" "\<not> fits NE ?b ?r" "fits SW ?b ?r"
    | "\<not> fits NW ?b ?r" "\<not> fits NE ?b ?r" "\<not> fits SW ?b ?r" "fits SE ?b ?r"
    | "\<not> fits NW ?b ?r" "\<not> fits NE ?b ?r" "\<not> fits SW ?b ?r" "\<not> fits SE ?b ?r"
    by blast
  then show thesis
  proof cases
    case 1
    then obtain c where "addElement (slot NW node) el = Some c" "node' = with_child NW c node"
      using assms by (subst (asm) addElement_unfold) (auto simp: bind_eq_Some_conv)
    with 1 show thesis using Routed by blast
  next
    case 2
    then obtain c where "addElement (slot NE node) el = Some c" "node' = with_child NE c node"
      using assms by (subst (asm) addElement_unfold) (auto simp: bind_eq_Some_conv)
    with 2 show thesis using Routed by blast
  next
    case 3
    then obtain c where "addElement (slot SW node) el = Some c" "node' = with_child SW c node"
      using assms by (subst (asm) addElement_unfold) (auto simp: bind_eq_Some_conv)
    with 3 show thesis using Routed by blast
  next
    case 4
    then obtain c where "addElement (slot SE node) el = Some c" "node' = with_child SE c node"
      using assms by (subst (asm) addElement_unfold) (auto simp: bind_eq_Some_conv)
    with 4 show thesis using Routed by blast
  next
    case 5
    then have "node' = with_element el node"
      using assms by (subst (asm) addElement_unfold) auto
    moreover have "\<forall>q. \<not> fits q ?b ?r" using 5 by (metis Quadrant.exhaust)
    ultimately show thesis using Bucket by blast
  qed
qed

lemma size_with_child: "size c < size (with_child q c n)"
  by (cases q) simp_all

subsection \<open>A built tree is populated\<close>








subsection \<open>A built tree satisfies the containment invariant\<close>

lemma strictlyWithin_fits:
  "strictlyWithin rect q (getQuadrant b q) \<Longrightarrow> fits q b rect"
  by (cases q) (simp_all add: xDiv_def yDiv_def)

lemma fits_strictlyWithin:
  "fits q b rect \<Longrightarrow> inside rect b \<Longrightarrow> strictlyWithin rect q (getQuadrant b q)"
  by (cases q) (auto simp: inside_def xDiv_def yDiv_def)

lemma strictlyWithin_inside: "strictlyWithin rect q quad \<Longrightarrow> inside rect quad"
  by (cases q) simp_all

lemma no_fit_bucket_ok:
  assumes "\<forall>q. \<not> fits q b rect"
  shows "bucket_ok b rect"
proof -
  have "\<not> fits NW b rect" "\<not> fits NE b rect" "\<not> fits SW b rect" "\<not> fits SE b rect"
    using assms by blast+
  then have "straddles rect b" by (auto simp: straddles_def)
  then show ?thesis using assms strictlyWithin_fits unfolding bucket_ok_def by blast
qed

lemma node_rectangle_with_child [simp]: "node_rectangle (with_child q c n) = node_rectangle n"
  by (cases q) simp_all

lemma slot_facts:
  assumes "containment n"
  shows "containment (slot q n)" "routed_ok q (node_rectangle n) (slot q n)"
  using assms
  by (cases n; cases q; auto simp: slot_def newNode_def routed_ok_def split: option.splits)+

lemma containment_with_child:
  "containment n \<Longrightarrow> routed_ok q (node_rectangle n) c \<Longrightarrow> containment c
     \<Longrightarrow> containment (with_child q c n)"
  by (cases n; cases q) simp_all

lemma containment_with_element:
  "containment n \<Longrightarrow> bucket_ok (node_rectangle n) (rectangle el)
     \<Longrightarrow> containment (with_element el n)"
  by (cases n) (simp add: with_element_def)

lemma subtree_elements_with_child:
  "set (subtree_elements c) = insert el (set (subtree_elements (slot q n)))
     \<Longrightarrow> set (subtree_elements (with_child q c n)) = insert el (set (subtree_elements n))"
  by (cases n; cases q) (auto simp: slot_def newNode_def split: option.splits)

lemma subtree_elements_with_element:
  "set (subtree_elements (with_element el n)) = insert el (set (subtree_elements n))"
  by (cases n) (auto simp: with_element_def)

lemma addElement_containment:
  "addElement node el = Some node' \<Longrightarrow> containment node
     \<Longrightarrow> inside (rectangle el) (node_rectangle node)
     \<Longrightarrow> containment node' \<and> node_rectangle node' = node_rectangle node \<and>
         set (subtree_elements node') = insert el (set (subtree_elements node))"
proof (induction node' arbitrary: node rule: measure_induct_rule[where f = size])
  case (less node')
  let ?b = "node_rectangle node"
  from less.prems(1) show ?case
  proof (cases rule: addElement_cases)
    case (Routed q c)
    have sz: "size c < size node'" using Routed(3) size_with_child by blast
    have cs: "containment (slot q node)" and rs: "routed_ok q ?b (slot q node)"
      using slot_facts[OF less.prems(2)] by blast+
    have sw: "strictlyWithin (rectangle el) q (getQuadrant ?b q)"
      using fits_strictlyWithin[OF Routed(1) less.prems(3)] .
    have rq: "node_rectangle (slot q node) = getQuadrant ?b q"
      using rs by (simp add: routed_ok_def)
    have ins: "inside (rectangle el) (node_rectangle (slot q node))"
      using sw strictlyWithin_inside rq by metis
    have ih: "containment c \<and> node_rectangle c = node_rectangle (slot q node) \<and>
         set (subtree_elements c) = insert el (set (subtree_elements (slot q node)))"
      using less.IH[OF sz Routed(2) cs ins] .
    have "routed_ok q ?b c"
      using ih rs sw rq by (simp add: routed_ok_def list_all_iff)
    then have "containment (with_child q c node)"
      using containment_with_child[OF less.prems(2)] ih by blast
    moreover have "set (subtree_elements (with_child q c node)) = insert el (set (subtree_elements node))"
      using subtree_elements_with_child ih by blast
    ultimately show ?thesis using Routed(3) by simp
  next
    case Bucket
    have "bucket_ok ?b (rectangle el)" using no_fit_bucket_ok[OF Bucket(1)] .
    then have "containment (with_element el node)"
      using containment_with_element[OF less.prems(2)] by blast
    then show ?thesis using Bucket(2) subtree_elements_with_element[of el node]
      by (simp add: with_element_def)
  qed
qed


subsection \<open>The build returns\<close>

text \<open>
  Each level of \<open>addElement\<close> halves the region, and an element that is routed into a
  quadrant lies inside it. So the recursion ends for an element of positive width or
  height that lies inside the region of the node, and \<open>quadtree\<close> returns a tree for
  every list of such members that is not empty.
\<close>

lemma getQuadrant_halves:
  "right_edge (getQuadrant b q) - left_edge (getQuadrant b q) = (right_edge b - left_edge b) / 2"
  "bottom_edge (getQuadrant b q) - top_edge (getQuadrant b q) = (bottom_edge b - top_edge b) / 2"
  by (cases q; simp add: field_simps)+

lemma slot_routed:
  assumes "containment node" and "fits q (node_rectangle node) (rectangle el)"
    and "inside (rectangle el) (node_rectangle node)"
  shows "containment (slot q node)"
    and "node_rectangle (slot q node) = getQuadrant (node_rectangle node) q"
    and "inside (rectangle el) (node_rectangle (slot q node))"
proof -
  show "containment (slot q node)" using slot_facts(1)[OF assms(1)] .
  show rq: "node_rectangle (slot q node) = getQuadrant (node_rectangle node) q"
    using slot_facts(2)[OF assms(1)] by (simp add: routed_ok_def)
  show "inside (rectangle el) (node_rectangle (slot q node))"
    using fits_strictlyWithin[OF assms(2,3)] strictlyWithin_inside rq by metis
qed

lemma addElement_returns_width:
  assumes "0 < right_edge (rectangle el) - left_edge (rectangle el)"
  shows "containment node \<Longrightarrow> inside (rectangle el) (node_rectangle node)
     \<Longrightarrow> right_edge (node_rectangle node) - left_edge (node_rectangle node)
           < (right_edge (rectangle el) - left_edge (rectangle el)) * 2 ^ k
     \<Longrightarrow> \<exists>node'. addElement node el = Some node'"
proof (induction k arbitrary: node)
  case 0
  then show ?case by (simp add: inside_def)
next
  case (Suc k)
  have step: "\<exists>c. addElement (slot q node) el = Some c"
    if f: "fits q (node_rectangle node) (rectangle el)" for q
  proof -
    note s = slot_routed[OF Suc.prems(1) f Suc.prems(2)]
    have "right_edge (node_rectangle (slot q node)) - left_edge (node_rectangle (slot q node))
        < (right_edge (rectangle el) - left_edge (rectangle el)) * 2 ^ k"
      using Suc.prems(3) unfolding s(2) getQuadrant_halves by simp
    then show ?thesis using Suc.IH s(1,3) by blast
  qed
  show ?case
    by (subst addElement_unfold) (use step in \<open>auto simp: bind_eq_Some_conv\<close>)
qed

lemma addElement_returns_height:
  assumes "0 < bottom_edge (rectangle el) - top_edge (rectangle el)"
  shows "containment node \<Longrightarrow> inside (rectangle el) (node_rectangle node)
     \<Longrightarrow> bottom_edge (node_rectangle node) - top_edge (node_rectangle node)
           < (bottom_edge (rectangle el) - top_edge (rectangle el)) * 2 ^ k
     \<Longrightarrow> \<exists>node'. addElement node el = Some node'"
proof (induction k arbitrary: node)
  case 0
  then show ?case by (simp add: inside_def)
next
  case (Suc k)
  have step: "\<exists>c. addElement (slot q node) el = Some c"
    if f: "fits q (node_rectangle node) (rectangle el)" for q
  proof -
    note s = slot_routed[OF Suc.prems(1) f Suc.prems(2)]
    have "bottom_edge (node_rectangle (slot q node)) - top_edge (node_rectangle (slot q node))
        < (bottom_edge (rectangle el) - top_edge (rectangle el)) * 2 ^ k"
      using Suc.prems(3) unfolding s(2) getQuadrant_halves by simp
    then show ?thesis using Suc.IH s(1,3) by blast
  qed
  show ?case
    by (subst addElement_unfold) (use step in \<open>auto simp: bind_eq_Some_conv\<close>)
qed

lemma power_two_above: "0 < (w::real) \<Longrightarrow> \<exists>k. W < w * 2 ^ k"
proof -
  assume w: "0 < w"
  obtain k where "W / w < 2 ^ k" using real_arch_pow[of 2 "W / w"] by auto
  then have "W < w * 2 ^ k" using w by (simp add: field_simps)
  then show ?thesis ..
qed

lemma addElement_returns:
  assumes "containment node" and "inside (rectangle el) (node_rectangle node)"
    and "left_edge (rectangle el) < right_edge (rectangle el)
         \<or> top_edge (rectangle el) < bottom_edge (rectangle el)"
  shows "\<exists>node'. addElement node el = Some node'"
  using assms(3)
proof
  assume "left_edge (rectangle el) < right_edge (rectangle el)"
  then have w: "0 < right_edge (rectangle el) - left_edge (rectangle el)" by simp
  from power_two_above[OF w] addElement_returns_width[OF w assms(1,2)] show ?thesis by blast
next
  assume "top_edge (rectangle el) < bottom_edge (rectangle el)"
  then have h: "0 < bottom_edge (rectangle el) - top_edge (rectangle el)" by simp
  from power_two_above[OF h] addElement_returns_height[OF h assms(1,2)] show ?thesis by blast
qed

lemma quadtree_loop_returns:
  "containment rootNode
     \<Longrightarrow> list_all (\<lambda>e. inside (boundingBox e) (node_rectangle rootNode) \<and>
                         (0 < innerWidth e \<or> 0 < innerHeight e)) els
     \<Longrightarrow> \<exists>t. quadtree_loop rootNode els = Some t"
proof (induction els arbitrary: rootNode)
  case Nil
  then show ?case by simp
next
  case (Cons e es)
  have i: "inside (rectangle (Element e)) (node_rectangle rootNode)"
    using Cons.prems(2) by (simp add: Element_def)
  have "left_edge (rectangle (Element e)) < right_edge (rectangle (Element e))
         \<or> top_edge (rectangle (Element e)) < bottom_edge (rectangle (Element e))"
    using Cons.prems(2) by (auto simp: Element_def boundingBox_def)
  from addElement_returns[OF Cons.prems(1) i this]
  obtain r1 where a: "addElement rootNode (Element e) = Some r1" by blast
  from addElement_containment[OF a Cons.prems(1) i]
  have "containment r1" "node_rectangle r1 = node_rectangle rootNode" by blast+
  then obtain t where "quadtree_loop r1 es = Some t"
    using Cons.IH[of r1] Cons.prems(2) by auto
  with a show ?case by simp
qed

lemma quadtree_returns:
  assumes "els \<noteq> []"
    and "list_all (\<lambda>e. inside (boundingBox e) bounds \<and> (0 < innerWidth e \<or> 0 < innerHeight e)) els"
  shows "\<exists>t. quadtree els bounds = Some (Some t)"
proof -
  have c: "containment (newNode bounds)" by (simp add: newNode_def)
  have l: "list_all (\<lambda>e. inside (boundingBox e) (node_rectangle (newNode bounds)) \<and>
                         (0 < innerWidth e \<or> 0 < innerHeight e)) els"
    using assms(2) by (simp add: newNode_def)
  obtain t where "quadtree_loop (newNode bounds) els = Some t"
    using quadtree_loop_returns[OF c l] by blast
  then show ?thesis using assms(1) by (simp add: quadtree_def)
qed

section \<open>The distance from a point to a rectangle\<close>

text \<open>
  C4. \<open>distanceToRectangle\<close> is total: for a well-formed rectangle and any point it
  returns a number, never the \<^verbatim>\<open>null\<close> default. The six branches of the code cover the
  nine regions of the plane, and ties go to the inclusive band branches: a point whose x
  lies in the closed span of the rectangle (the rectangle itself, the band above and the
  band below) takes the first branch, a point left or right of it whose y lies in the
  closed span takes the second, and the four corner branches are reached exactly in the
  four open corner zones.
\<close>

theorem distanceToRectangle_total:
  assumes "wellformed rect"
  shows "distanceToRectangle rect x y \<noteq> Null \<and>
    (\<exists>d. distanceToRectangle rect x y = Num d \<and> 0 \<le> d) \<and>
    (left_edge rect \<le> x \<and> x \<le> right_edge rect \<longrightarrow>
       distanceToRectangle rect x y = Num (min \<bar>y - bottom_edge rect\<bar> \<bar>top_edge rect - y\<bar>)) \<and>
    ((x < left_edge rect \<or> right_edge rect < x) \<and> top_edge rect \<le> y \<and> y \<le> bottom_edge rect \<longrightarrow>
       distanceToRectangle rect x y = Num (min \<bar>x - right_edge rect\<bar> \<bar>left_edge rect - x\<bar>)) \<and>
    (right_edge rect < x \<and> bottom_edge rect < y \<longrightarrow>
       distanceToRectangle rect x y
         = Num (pythagoreanDistance x y (right_edge rect) (bottom_edge rect))) \<and>
    (x < left_edge rect \<and> bottom_edge rect < y \<longrightarrow>
       distanceToRectangle rect x y
         = Num (pythagoreanDistance x y (left_edge rect) (bottom_edge rect))) \<and>
    (right_edge rect < x \<and> y < top_edge rect \<longrightarrow>
       distanceToRectangle rect x y
         = Num (pythagoreanDistance x y (right_edge rect) (top_edge rect))) \<and>
    (x < left_edge rect \<and> y < top_edge rect \<longrightarrow>
       distanceToRectangle rect x y
         = Num (pythagoreanDistance x y (left_edge rect) (top_edge rect)))"
  using assms unfolding distanceToRectangle_def wellformed_def pythagoreanDistance_def Let_def
  by auto

text \<open>
  At the rectangle from (0, 0) to (10, 10): the point (10, 20) lies on the line of the
  right side, below the rectangle, and takes the band branch; (13, 14) lies in the
  south-east corner zone, at distance 5 from the corner.
\<close>

theorem distanceToRectangle_total_witness:
  "wellformed square10 \<and>
   distanceToRectangle square10 10 20 = Num 10 \<and>
   distanceToRectangle square10 13 14 = Num 5"
proof -
  have w: "wellformed square10"
    by (simp add: wellformed_def square10_def)
  show ?thesis
    using w distanceToRectangle_total[OF w, of 10 20] distanceToRectangle_total[OF w, of 13 14]
    by (simp add: pythagoreanDistance_def square10_def)
qed

text \<open>
  C1. The claim is that the distance is 0 exactly for the points inside the rectangle or
  on its border. The code has no branch for the inside: a point whose x lies in the span
  of the rectangle gets the distance to the nearer of the lines through the top and the
  bottom side. At the rectangle from (0, 0) to (10, 10) the centre (5, 5), the point
  (0, 5) on the left side and the point (1, 5), which is 1 away from the left side, all
  get 5.
\<close>

theorem distanceToRectangle_inside_not_zero:
  "distanceToRectangle square10 5 5 = Num 5 \<and>
   distanceToRectangle square10 0 5 = Num 5 \<and>
   distanceToRectangle square10 1 5 = Num 5"
  by (simp add: distanceToRectangle_def square10_def)

text \<open>
  C3. The claim is that the distance to a child's region is a lower bound of the
  distance to every element stored below it. The north-east quadrant of the page is the
  region from (50, 0) to (100, 50); the query point (50, 25) lies on its left side, is
  classified north-west, and gets the region distance 25, while the element R from
  (51, 20) to (60, 30), strictly within that quadrant, is at distance 1.
\<close>

theorem region_distance_above_element_distance:
  "strictlyWithin (boundingBox boxR) NE (getQuadrant page NE) \<and>
   distanceToRectangle (getQuadrant page NE) 50 25 = Num 25 \<and>
   distanceToRectangle (boundingBox boxR) 50 25 = Num 1 \<and>
   quadWithPoint page 50 25 = Some NW"
  by (simp add: distanceToRectangle_def inside_def quadWithPoint_def boundingBox_def
        page_def boxR_def)

section \<open>The two scans\<close>



section \<open>The search\<close>

text \<open>
  C6 (as amended). Called on an absent node, \<open>nearestNeighbor\<close> returns \<^verbatim>\<open>null\<close>, for
  every query point and whatever current best the caller supplies.
\<close>

theorem nearestNeighbor_absent_node:
  "nearestNeighbor None x y best = Inr (None, None)"
  by simp

theorem nearestNeighbor_absent_node_witness:
  "nearestNeighbor None 3 4 (Some (BestElement ((Element boxA)\<lparr>distance := Num 7\<rparr>)))
   = Inr (None, None)"
  using nearestNeighbor_absent_node[of 3 4
      "Some (BestElement ((Element boxA)\<lparr>distance := Num 7\<rparr>))"]
  by simp

text \<open>
  The claim as written, that the caller's current best comes back unchanged, fails: with
  the element A at distance 7 as the current best, the call does not return that element.
\<close>

theorem nearestNeighbor_absent_node_counterexample:
  "nearestNeighbor None 3 4 (Some (BestElement ((Element boxA)\<lparr>distance := Num 7\<rparr>)))
   \<noteq> Inr (None, Some (BestElement ((Element boxA)\<lparr>distance := Num 7\<rparr>)))"
  by simp






section \<open>Building and searching\<close>





text \<open>
  C2. The claim is that the tree search and the full scan return elements at the same
  distance. On the page with L and R and the query point (50, 25), which lies on the
  vertical dividing line: the point is classified north-west, the search takes L at
  distance 10 from the north-west child and then skips the north-east child, whose
  region distance is computed as 25, so it never scans R (the distance of R stays
  unwritten); the full scan returns R, at distance 1.
\<close>

theorem tree_search_differs_from_fullScan:
  "quadtree [boxL, boxR] page
     = Some (Some (Node page POSITIVE_INFINITY []
        (Some (Node (getQuadrant page NW) POSITIVE_INFINITY [Element boxL] None None None None))
        (Some (Node (getQuadrant page NE) POSITIVE_INFINITY [Element boxR] None None None None))
        None None)) \<and>
   nearestNeighbor
     (Some (Node page POSITIVE_INFINITY []
        (Some (Node (getQuadrant page NW) POSITIVE_INFINITY [Element boxL] None None None None))
        (Some (Node (getQuadrant page NE) POSITIVE_INFINITY [Element boxR] None None None None))
        None None)) 50 25 None
     = Inr (Some (Node page POSITIVE_INFINITY []
        (Some (Node (getQuadrant page NW) POSITIVE_INFINITY
                 [(Element boxL)\<lparr>distance := Num 10\<rparr>] None None None None))
        (Some (Node (getQuadrant page NE) POSITIVE_INFINITY [Element boxR] None None None None))
        None None),
      Some (BestElement ((Element boxL)\<lparr>distance := Num 10\<rparr>))) \<and>
   fullScan [boxL, boxR] 50 25 = Some boxR \<and>
   distanceToRectangle (boundingBox boxR) 50 25 = Num 1"
  by (simp add: quadtree_def newNode_def addElement_unfold xDiv_def yDiv_def slot_def
        with_element_def nearestNeighbor_unfold scanBucket_def visitChild_def
        getMinDistance_def fullScan_def distanceToRectangle_def quadWithPoint_def Let_def
        Element_def boundingBox_def page_def boxL_def boxR_def)

end
